theory Spec2Isabelle
  imports Main
begin

section \<open>Python values, exceptions and string helpers\<close>

text \<open>
  The client of \<^verbatim>\<open>python_vimeo/client.py\<close> passes Python dictionaries, lists, strings,
  integers, booleans and \<^verbatim>\<open>None\<close> to the HTTP library and reads the same kinds of values
  back from \<^verbatim>\<open>response.json()\<close>. They are modelled by one datatype; a dictionary is an
  association list in insertion order. Floating point numbers are left out: no operation
  of the client computes with them.
\<close>

datatype json =
    JNull
  | JBool bool
  | JInt int
  | JStr string
  | JList "json list"
  | JDict "(string \<times> json) list"

text \<open>
  Exceptions are values. The first five are raised by the Python code of the client
  itself (or by the subscripting, indexing and attribute access it performs);
  \<open>External name\<close> is an exception of class \<open>name\<close> raised inside a library call
  (\<^verbatim>\<open>requests\<close>, the PyVimeo SDK, \<^verbatim>\<open>urllib\<close>, \<^verbatim>\<open>bs4\<close>).
\<close>

datatype exn =
    NotImplementedError
  | KeyError
  | TypeError
  | IndexError
  | AttributeError
  | External string

text \<open>\<^verbatim>\<open>obj[key]\<close> with a string key: only a dictionary can be subscripted that way.\<close>

fun getitem :: "json \<Rightarrow> string \<Rightarrow> exn + json" where
  "getitem (JDict kvs) k = (case map_of kvs k of None \<Rightarrow> Inl KeyError | Some v \<Rightarrow> Inr v)"
| "getitem _ k = Inl TypeError"

text \<open>\<^verbatim>\<open>s.startswith(p)\<close>\<close>

definition startswith :: "string \<Rightarrow> string \<Rightarrow> bool" where
  "startswith s p = (take (length p) s = p)"

text \<open>
  \<^verbatim>\<open>s.split(sep)\<close> for a separator of one character: the list of the pieces between the
  separators, never empty. \<^verbatim>\<open>xs.pop()\<close> returns the last element of the list.
\<close>

fun str_split :: "char \<Rightarrow> string \<Rightarrow> string list" where
  "str_split sep [] = [[]]"
| "str_split sep (c # cs) =
     (if c = sep then [] # str_split sep cs
      else (c # hd (str_split sep cs)) # tl (str_split sep cs))"

definition pop :: "'a list \<Rightarrow> 'a" where
  "pop xs = last xs"

text \<open>\<^verbatim>\<open>os.path.basename(p)\<close>: what follows the last slash of \<open>p\<close>.\<close>

definition basename :: "string \<Rightarrow> string" where
  "basename p = rev (takeWhile (\<lambda>c. c \<noteq> CHR ''/'') (rev p))"


text \<open>The decimal text of an integer, as an f-string prints it.\<close>

fun str_nat :: "nat \<Rightarrow> string" where
  "str_nat n =
     (if n < 10 then [char_of (48 + n)]
      else str_nat (n div 10) @ [char_of (48 + n mod 10)])"

definition str_int :: "int \<Rightarrow> string" where
  "str_int i = (if i < 0 then CHR ''-'' # str_nat (nat (- i)) else str_nat (nat i))"

text \<open>What an f-string prints for an optional value: \<^verbatim>\<open>None\<close> prints as \<open>None\<close>.\<close>

definition fmt_str :: "string option \<Rightarrow> string" where
  "fmt_str v = (case v of None \<Rightarrow> ''None'' | Some s \<Rightarrow> s)"

definition fmt_int :: "int option \<Rightarrow> string" where
  "fmt_int v = (case v of None \<Rightarrow> ''None'' | Some i \<Rightarrow> str_int i)"

text \<open>Truth values of optional strings and integers: \<^verbatim>\<open>None\<close>, \<open>''''\<close> and \<open>0\<close> are false.\<close>

definition truthy_str :: "string option \<Rightarrow> bool" where
  "truthy_str v = (case v of None \<Rightarrow> False | Some s \<Rightarrow> s \<noteq> [])"

definition truthy_int :: "int option \<Rightarrow> bool" where
  "truthy_int v = (case v of None \<Rightarrow> False | Some i \<Rightarrow> i \<noteq> 0)"

definition json_of_str :: "string option \<Rightarrow> json" where
  "json_of_str v = (case v of None \<Rightarrow> JNull | Some s \<Rightarrow> JStr s)"


section \<open>The client object and the world around it\<close>

text \<open>The SDK client built by \<^verbatim>\<open>VimeoClient(token=..., key=..., secret=...)\<close>.\<close>

record VimeoClient =
  token :: "string option"
  key :: "string option"
  secret :: "string option"

text \<open>The attributes of a \<^verbatim>\<open>Vimeo\<close> object.\<close>

record Vimeo =
  ACCESS_TOKEN :: "string option"
  CLIENT_ID :: "string option"
  CLIENT_SECRET :: "string option"
  USER_ID :: "int option"
  py_vimeo_client :: "VimeoClient option"
  response_code :: "int option"
  REQUEST_HEADERS :: "(string \<times> string) list"

text \<open>\<^verbatim>\<open>Vimeo.__init__\<close>\<close>

definition init :: "string option \<Rightarrow> string option \<Rightarrow> string option \<Rightarrow> int option \<Rightarrow> Vimeo" where
  "init access_token client_id client_secret user_id =
     \<lparr> ACCESS_TOKEN = access_token,
       CLIENT_ID = client_id,
       CLIENT_SECRET = client_secret,
       USER_ID = user_id,
       py_vimeo_client = None,
       response_code = None,
       REQUEST_HEADERS =
         [(''Authorization'', ''bearer '' @ fmt_str access_token),
          (''Content-Type'', ''application/json''),
          (''Accept'', ''application/vnd.vimeo.*+json;version=3.4'')] \<rparr>"

text \<open>
  A call of \<^verbatim>\<open>requests.get\<close>, \<^verbatim>\<open>head\<close>, \<^verbatim>\<open>post\<close>, \<^verbatim>\<open>put\<close>, \<^verbatim>\<open>patch\<close> or \<^verbatim>\<open>delete\<close>:
  the method, the URL and the keyword arguments the source passes (\<open>None\<close> for a
  keyword that is not passed).
\<close>

datatype http_method = GET | HEAD | POST | PUT | PATCH | DELETE

record request =
  verb :: http_method
  url :: string
  headers_kw :: "(string \<times> string) list option"
  json_kw :: "json option"
  allow_redirects_kw :: "bool option"

text \<open>
  What the client reads of a response: \<^verbatim>\<open>status_code\<close>, \<^verbatim>\<open>headers\<close> and \<^verbatim>\<open>json()\<close>.
  \<open>body_json\<close> is \<open>None\<close> when the body is not a JSON text; \<^verbatim>\<open>json()\<close> raises then.
\<close>

record response =
  status_code :: int
  headers :: "(string \<times> string) list"
  body_json :: "json option"

definition json_of :: "response \<Rightarrow> exn + json" where
  "json_of r = (case body_json r of None \<Rightarrow> Inl (External ''JSONDecodeError'') | Some j \<Rightarrow> Inr j)"

text \<open>
  \<^verbatim>\<open>name in response.headers\<close> and \<^verbatim>\<open>response.headers[name]\<close>: the header dictionary of
  \<^verbatim>\<open>requests\<close> compares names without regard to case.
\<close>

definition lower_char :: "char \<Rightarrow> char" where
  "lower_char c =
     (if 65 \<le> (of_char c :: nat) \<and> (of_char c :: nat) \<le> 90
      then char_of ((of_char c :: nat) + 32) else c)"

definition header :: "response \<Rightarrow> string \<Rightarrow> string option" where
  "header r name =
     map_of (map (\<lambda>(k, v). (map lower_char k, v)) (headers r)) (map lower_char name)"

text \<open>
  Every call that leaves the process is recorded, in order: HTTP requests, the two SDK
  calls \<^verbatim>\<open>client.upload(file_path, data=...)\<close> and
  \<^verbatim>\<open>client.upload_picture(video_uri, file_path, activate=...)\<close>, and the download
  \<^verbatim>\<open>urllib.request.urlretrieve(url, filename)\<close>.
\<close>

datatype call =
    Requests request
  | SdkUpload VimeoClient string json
  | SdkUploadPicture VimeoClient string string bool
  | UrlRetrieve string string

text \<open>The world outside the object: the local files and the calls issued so far.\<close>

record world =
  files :: "string set"
  calls :: "call list"

text \<open>
  The behaviour of the outside is a parameter: for the calls issued so far and the next
  call, either the class name of the exception the library raises or the value it
  returns. \<^verbatim>\<open>client.upload\<close> returns the URI of the new video (or \<^verbatim>\<open>None\<close>);
  \<^verbatim>\<open>urlretrieve\<close> returns the name of the local file it wrote.
\<close>

record env =
  remote :: "call list \<Rightarrow> request \<Rightarrow> string + response"
  sdk_upload :: "call list \<Rightarrow> VimeoClient \<Rightarrow> string \<Rightarrow> json \<Rightarrow> string + string option"
  sdk_upload_picture :: "call list \<Rightarrow> VimeoClient \<Rightarrow> string \<Rightarrow> string \<Rightarrow> bool \<Rightarrow> string + json"
  urlretrieve :: "call list \<Rightarrow> string \<Rightarrow> string \<Rightarrow> string + string"

type_synonym state = "Vimeo \<times> world"

text \<open>Lifting a library outcome to an outcome of the client.\<close>

definition lib :: "string + 'a \<Rightarrow> exn + 'a" where
  "lib r = (case r of Inl name \<Rightarrow> Inl (External name) | Inr v \<Rightarrow> Inr v)"

text \<open>One HTTP request: it is recorded, then the outside answers or the library raises.\<close>

definition requests :: "env \<Rightarrow> request \<Rightarrow> world \<Rightarrow> (exn + response) \<times> world" where
  "requests env req w =
     (lib (remote env (calls w) req), w\<lparr>calls := calls w @ [Requests req]\<rparr>)"


section \<open>The operations of the client\<close>

text \<open>\<^verbatim>\<open>Vimeo._get_or_set_py_vimeo_client\<close>\<close>

definition get_or_set_py_vimeo_client :: "Vimeo \<Rightarrow> (exn + VimeoClient) \<times> Vimeo" where
  "get_or_set_py_vimeo_client self =
     (if \<not> truthy_str (CLIENT_ID self) \<or> \<not> truthy_str (CLIENT_SECRET self)
      then (Inl NotImplementedError, self)
      else (case py_vimeo_client self of
              Some c \<Rightarrow> (Inr c, self)
            | None \<Rightarrow>
                (let c = \<lparr> token = ACCESS_TOKEN self, key = CLIENT_ID self,
                            secret = CLIENT_SECRET self \<rparr>
                 in (Inr c, self\<lparr>py_vimeo_client := Some c\<rparr>))))"

text \<open>\<^verbatim>\<open>Vimeo._set_response_code\<close>\<close>

definition set_response_code :: "int option \<Rightarrow> Vimeo \<Rightarrow> Vimeo" where
  "set_response_code status self =
     (if \<not> truthy_int status then self\<lparr>response_code := None\<rparr>
      else self\<lparr>response_code := status\<rparr>)"

text \<open>Sequencing of outcomes: an exception ends the computation.\<close>

definition and_then :: "exn + 'a \<Rightarrow> ('a \<Rightarrow> exn + 'b) \<Rightarrow> exn + 'b" where
  "and_then m f = (case m of Inl e \<Rightarrow> Inl e | Inr v \<Rightarrow> f v)"

text \<open>
  The two statements that follow each other in every HTTP operation of the client:
  \<^verbatim>\<open>response = requests.<method>(...)\<close> and
  \<^verbatim>\<open>self._set_response_code(response.status_code)\<close>. When the request raises, the
  status field is not touched.
\<close>

definition send :: "env \<Rightarrow> request \<Rightarrow> state \<Rightarrow> (exn + response) \<times> state" where
  "send env req = (\<lambda>(self, w).
     case requests env req w of
       (Inl e, w') \<Rightarrow> (Inl e, (self, w'))
     | (Inr response, w') \<Rightarrow>
         (Inr response, (set_response_code (Some (status_code response)) self, w')))"

text \<open>The prefix of every endpoint.\<close>

definition api :: string where
  "api = ''https://api.vimeo.com''"

text \<open>\<^verbatim>\<open>Vimeo.upload_video\<close>: the default \<^verbatim>\<open>data\<close> and the operation.\<close>

definition upload_video_data :: "string option \<Rightarrow> string option \<Rightarrow> json" where
  "upload_video_data video_name video_description =
     JDict
       [(''name'', json_of_str video_name),
        (''description'', json_of_str video_description),
        (''content_rating'', JList [JStr ''safe'']),
        (''privacy'', JDict
           [(''download'', JBool False),
            (''embed'', JStr ''whitelist''),
            (''comments'', JStr ''nobody''),
            (''view'', JStr ''disable'')]),
        (''review_page'', JDict [(''active'', JBool False)])]"

definition upload_video ::
  "env \<Rightarrow> string \<Rightarrow> string option \<Rightarrow> string option \<Rightarrow> (string \<times> json) list \<Rightarrow>
   state \<Rightarrow> (exn + string option) \<times> state" where
  "upload_video env file_path video_name video_description settings = (\<lambda>(self, w).
     case get_or_set_py_vimeo_client self of
       (Inl e, self') \<Rightarrow> (Inl e, (self', w))
     | (Inr client, self') \<Rightarrow>
         (let data = (if settings = [] then upload_video_data video_name video_description
                      else JDict settings);
              w' = w\<lparr>calls := calls w @ [SdkUpload client file_path data]\<rparr>
          in case lib (sdk_upload env (calls w) client file_path data) of
               Inl e \<Rightarrow> (Inl e, (self', w'))
             | Inr video_uri \<Rightarrow>
                 (Inr video_uri,
                  (set_response_code (if truthy_str video_uri then Some 200 else None) self',
                   w'))))"

text \<open>
  \<^verbatim>\<open>Vimeo.upload_picture\<close>. The download writes the file whose name it returns;
  \<^verbatim>\<open>os.path.exists\<close> and \<^verbatim>\<open>os.remove\<close> read and change the set of local files.
\<close>

definition upload_picture ::
  "env \<Rightarrow> string \<Rightarrow> string \<Rightarrow> state \<Rightarrow> (exn + json) \<times> state" where
  "upload_picture env video_uri file_path = (\<lambda>(self, w).
     case (if startswith file_path ''http''
           then (let local_file = basename file_path;
                     w' = w\<lparr>calls := calls w @ [UrlRetrieve file_path local_file]\<rparr>
                 in case lib (urlretrieve env (calls w) file_path local_file) of
                      Inl e \<Rightarrow> (Inl e, w')
                    | Inr written \<Rightarrow>
                        (Inr (Some local_file, written),
                         w'\<lparr>files := insert written (files w')\<rparr>))
           else (Inr (None, file_path), w)) of
       (Inl e, w1) \<Rightarrow> (Inl e, (self, w1))
     | (Inr (local_file, file_path'), w1) \<Rightarrow>
         (case get_or_set_py_vimeo_client self of
            (Inl e, self') \<Rightarrow> (Inl e, (self', w1))
          | (Inr client, self') \<Rightarrow>
              (let w2 = w1\<lparr>calls := calls w1 @
                          [SdkUploadPicture client video_uri file_path' True]\<rparr>
               in case lib (sdk_upload_picture env (calls w1) client video_uri file_path' True) of
                    Inl e \<Rightarrow> (Inl e, (self', w2))
                  | Inr upload_response \<Rightarrow>
                      (Inr upload_response,
                       (self',
                        (case local_file of
                           None \<Rightarrow> w2
                         | Some name \<Rightarrow>
                             if name \<noteq> [] \<and> name \<in> files w2
                             then w2\<lparr>files := files w2 - {name}\<rparr>
                             else w2))))))"

text \<open>\<^verbatim>\<open>Vimeo.get_video\<close>\<close>

definition get_video :: "env \<Rightarrow> string \<Rightarrow> state \<Rightarrow> (exn + json) \<times> state" where
  "get_video env video_uri = (\<lambda>(self, w).
     let video_id = pop (str_split CHR ''/'' video_uri) in
     case send env
            \<lparr> verb = GET,
              url = api @ ''/videos/'' @ video_id,
              headers_kw = Some (REQUEST_HEADERS self),
              json_kw = None,
              allow_redirects_kw = None \<rparr> (self, w) of
       (Inl e, st) \<Rightarrow> (Inl e, st)
     | (Inr response, st) \<Rightarrow> (json_of response, st))"

text \<open>\<^verbatim>\<open>Vimeo.get_common_video_information\<close>\<close>

definition get_common_video_information ::
  "env \<Rightarrow> string \<Rightarrow> state \<Rightarrow> (exn + json) \<times> state" where
  "get_common_video_information env video_uri st =
     (case get_video env video_uri st of
        (Inl e, st') \<Rightarrow> (Inl e, st')
      | (Inr video, st') \<Rightarrow>
          (and_then (and_then (getitem video ''transcode'') (\<lambda>t. getitem t ''status'')) (\<lambda>status.
           and_then (getitem video ''is_playable'') (\<lambda>is_playable.
           and_then (getitem video ''link'') (\<lambda>link.
           and_then (getitem video ''duration'') (\<lambda>duration.
           and_then (getitem video ''width'') (\<lambda>width.
           and_then (getitem video ''height'') (\<lambda>height.
             Inr (JDict
               [(''status'', status),
                (''is_playable'', is_playable),
                (''link'', link),
                (''duration'', duration),
                (''width'', width),
                (''height'', height)]))))))),
           st'))"

text \<open>\<^verbatim>\<open>Vimeo.change_video_content_rating\<close>\<close>

definition content_ratings :: "string list" where
  "content_ratings =
     [''violence'', ''drugs'', ''language'', ''nudity'', ''advertisement'', ''safe'', ''unrated'']"

definition change_video_content_rating ::
  "env \<Rightarrow> string \<Rightarrow> string \<Rightarrow> state \<Rightarrow> (exn + json) \<times> state" where
  "change_video_content_rating env video_uri rating = (\<lambda>(self, w).
     if rating \<notin> set content_ratings then (Inl NotImplementedError, (self, w))
     else
       (let video_id = pop (str_split CHR ''/'' video_uri);
            data = JDict [(''content_rating'', JList [JStr rating])]
        in case send env
                 \<lparr> verb = PATCH,
                   url = api @ ''/videos/'' @ video_id,
                   headers_kw = Some (REQUEST_HEADERS self),
                   json_kw = Some data,
                   allow_redirects_kw = None \<rparr> (self, w) of
             (Inl e, st) \<Rightarrow> (Inl e, st)
           | (Inr response, st) \<Rightarrow> (json_of response, st)))"

text \<open>
  \<^verbatim>\<open>Vimeo.pull_video_from_url\<close>: the default \<^verbatim>\<open>data\<close>, the detection of the size and
  the operation. The size is the caller's integer, the text of the \<open>Content-Length\<close>
  header, or the integer \<open>0\<close>.
\<close>

definition pull_video_data :: "string \<Rightarrow> string \<Rightarrow> string option \<Rightarrow> json \<Rightarrow> string \<Rightarrow> json" where
  "pull_video_data download_url video_name folder_uri file_size logo_link =
     JDict
       [(''name'', JStr video_name),
        (''description'', JStr []),
        (''upload'', JDict
           [(''approach'', JStr ''pull''),
            (''size'', file_size),
            (''link'', JStr download_url)]),
        (''content_rating'', JList [JStr ''safe'']),
        (''privacy'', JDict
           [(''download'', JBool False),
            (''embed'', JStr ''whitelist''),
            (''comments'', JStr ''nobody''),
            (''view'', JStr ''disable'')]),
        (''review_page'', JDict [(''active'', JBool False)]),
        (''embed'', JDict
           [(''buttons'', JDict
               [(''embed'', JBool False),
                (''fullscreen'', JBool True),
                (''hd'', JBool True),
                (''share'', JBool False),
                (''watchlater'', JBool False)]),
            (''color'', JStr ''#feeff0''),
            (''logos'', JDict
               [(''custom'', JDict
                   [(''active'', JBool True),
                    (''link'', if logo_link \<noteq> [] then JStr logo_link else JNull),
                    (''sticky'', JBool True)]),
                (''vimeo'', JBool False)]),
            (''playbar'', JBool True),
            (''title'', JDict
               [(''name'', JStr ''hide''),
                (''owner'', JStr ''hide''),
                (''portrait'', JStr ''hide'')]),
            (''volume'', JBool True)]),
        (''folder_uri'', if truthy_str folder_uri then json_of_str folder_uri else JNull)]"

definition detect_file_size ::
  "env \<Rightarrow> string \<Rightarrow> int option \<Rightarrow> world \<Rightarrow> (exn + json) \<times> world" where
  "detect_file_size env download_url file_size w =
     (if \<not> truthy_int file_size
      then (case requests env
                   \<lparr> verb = HEAD,
                     url = download_url,
                     headers_kw = None,
                     json_kw = None,
                     allow_redirects_kw = Some True \<rparr> w of
              (Inl e, w') \<Rightarrow> (Inl e, w')
            | (Inr response, w') \<Rightarrow>
                (Inr (case header response ''Content-Length'' of
                        Some v \<Rightarrow> JStr v
                      | None \<Rightarrow> JInt 0), w'))
      else (Inr (case file_size of Some n \<Rightarrow> JInt n | None \<Rightarrow> JNull), w))"

definition pull_video_from_url ::
  "env \<Rightarrow> string \<Rightarrow> string \<Rightarrow> string option \<Rightarrow> int option \<Rightarrow> (string \<times> json) list \<Rightarrow>
   string \<Rightarrow> state \<Rightarrow> (exn + json) \<times> state" where
  "pull_video_from_url env download_url video_name folder_uri file_size settings logo_link =
     (\<lambda>(self, w).
        case detect_file_size env download_url file_size w of
          (Inl e, w1) \<Rightarrow> (Inl e, (self, w1))
        | (Inr file_size', w1) \<Rightarrow>
            (let data = (if settings = []
                         then pull_video_data download_url video_name folder_uri file_size' logo_link
                         else JDict settings)
             in case send env
                      \<lparr> verb = POST,
                        url = api @ ''/me/videos'',
                        headers_kw = Some (REQUEST_HEADERS self),
                        json_kw = Some data,
                        allow_redirects_kw = None \<rparr> (self, w1) of
                  (Inl e, st) \<Rightarrow> (Inl e, st)
                | (Inr response, st) \<Rightarrow>
                    (and_then (json_of response) (\<lambda>r. getitem r ''uri''), st)))"

text \<open>\<^verbatim>\<open>Vimeo.update_video_title\<close>\<close>

definition update_video_title :: "env \<Rightarrow> string \<Rightarrow> string \<Rightarrow> state \<Rightarrow> (exn + int) \<times> state" where
  "update_video_title env video_uri title = (\<lambda>(self, w).
     let data = JDict [(''name'', JStr title)] in
     case send env
            \<lparr> verb = PATCH,
              url = api @ video_uri,
              headers_kw = Some (REQUEST_HEADERS self),
              json_kw = Some data,
              allow_redirects_kw = None \<rparr> (self, w) of
       (Inl e, st) \<Rightarrow> (Inl e, st)
     | (Inr response, st) \<Rightarrow> (Inr (status_code response), st))"

text \<open>\<^verbatim>\<open>Vimeo.delete_video\<close>\<close>

definition delete_video :: "env \<Rightarrow> string \<Rightarrow> state \<Rightarrow> (exn + int) \<times> state" where
  "delete_video env video_uri = (\<lambda>(self, w).
     case send env
            \<lparr> verb = DELETE,
              url = api @ video_uri,
              headers_kw = Some (REQUEST_HEADERS self),
              json_kw = None,
              allow_redirects_kw = None \<rparr> (self, w) of
       (Inl e, st) \<Rightarrow> (Inl e, st)
     | (Inr response, st) \<Rightarrow> (Inr (status_code response), st))"

text \<open>\<^verbatim>\<open>Vimeo.create_folder\<close>\<close>

definition create_folder :: "env \<Rightarrow> string \<Rightarrow> state \<Rightarrow> (exn + json) \<times> state" where
  "create_folder env folder_name = (\<lambda>(self, w).
     let data = JDict [(''name'', JStr folder_name)] in
     case send env
            \<lparr> verb = POST,
              url = api @ ''/users/'' @ fmt_int (USER_ID self) @ ''/projects'',
              headers_kw = Some (REQUEST_HEADERS self),
              json_kw = Some data,
              allow_redirects_kw = None \<rparr> (self, w) of
       (Inl e, st) \<Rightarrow> (Inl e, st)
     | (Inr response, st) \<Rightarrow>
         (and_then (json_of response) (\<lambda>r. getitem r ''uri''), st))"

text \<open>
  \<^verbatim>\<open>Vimeo.update_folder_name\<close>: the body of the response is parsed
  (\<^verbatim>\<open>response = response.json()\<close>) before the given URI is returned.
\<close>

definition update_folder_name ::
  "env \<Rightarrow> string \<Rightarrow> string \<Rightarrow> state \<Rightarrow> (exn + string) \<times> state" where
  "update_folder_name env folder_uri new_folder_name = (\<lambda>(self, w).
     let data = JDict [(''name'', JStr new_folder_name)] in
     case send env
            \<lparr> verb = PATCH,
              url = api @ folder_uri,
              headers_kw = Some (REQUEST_HEADERS self),
              json_kw = Some data,
              allow_redirects_kw = None \<rparr> (self, w) of
       (Inl e, st) \<Rightarrow> (Inl e, st)
     | (Inr response, st) \<Rightarrow>
         (and_then (json_of response) (\<lambda>r. Inr folder_uri), st))"

text \<open>\<^verbatim>\<open>Vimeo.delete_folder\<close>\<close>

definition delete_folder :: "env \<Rightarrow> string \<Rightarrow> bool \<Rightarrow> state \<Rightarrow> (exn + string) \<times> state" where
  "delete_folder env folder_uri delete_all_videos_in_folder = (\<lambda>(self, w).
     let data = JDict [(''should_delete_clips'', JBool delete_all_videos_in_folder)] in
     case send env
            \<lparr> verb = DELETE,
              url = api @ folder_uri,
              headers_kw = Some (REQUEST_HEADERS self),
              json_kw = Some data,
              allow_redirects_kw = None \<rparr> (self, w) of
       (Inl e, st) \<Rightarrow> (Inl e, st)
     | (Inr response, st) \<Rightarrow> (Inr folder_uri, st))"

text \<open>\<^verbatim>\<open>Vimeo.remove_video_from_folder\<close>\<close>

definition remove_video_from_folder ::
  "env \<Rightarrow> string \<Rightarrow> string \<Rightarrow> state \<Rightarrow> (exn + string) \<times> state" where
  "remove_video_from_folder env folder_uri video_uri = (\<lambda>(self, w).
     let video_id = pop (str_split CHR ''/'' video_uri) in
     case send env
            \<lparr> verb = DELETE,
              url = api @ folder_uri @ ''/videos/'' @ video_id,
              headers_kw = Some (REQUEST_HEADERS self),
              json_kw = None,
              allow_redirects_kw = None \<rparr> (self, w) of
       (Inl e, st) \<Rightarrow> (Inl e, st)
     | (Inr response, st) \<Rightarrow> (Inr folder_uri, st))"

text \<open>\<^verbatim>\<open>Vimeo.add_video_to_folder\<close>\<close>

definition add_video_to_folder ::
  "env \<Rightarrow> string \<Rightarrow> string \<Rightarrow> state \<Rightarrow> (exn + int) \<times> state" where
  "add_video_to_folder env folder_uri video_uri = (\<lambda>(self, w).
     let video_id = pop (str_split CHR ''/'' video_uri) in
     case send env
            \<lparr> verb = PUT,
              url = api @ folder_uri @ ''/videos/'' @ video_id,
              headers_kw = Some (REQUEST_HEADERS self),
              json_kw = None,
              allow_redirects_kw = None \<rparr> (self, w) of
       (Inl e, st) \<Rightarrow> (Inl e, st)
     | (Inr response, st) \<Rightarrow> (Inr (status_code response), st))"

text \<open>\<^verbatim>\<open>Vimeo.tag_video\<close>\<close>

definition tag_video :: "env \<Rightarrow> string \<Rightarrow> string \<Rightarrow> state \<Rightarrow> (exn + int) \<times> state" where
  "tag_video env video_uri tag = (\<lambda>(self, w).
     let video_id = pop (str_split CHR ''/'' video_uri) in
     case send env
            \<lparr> verb = PUT,
              url = api @ ''/videos/'' @ video_id @ ''/tags/'' @ tag,
              headers_kw = Some (REQUEST_HEADERS self),
              json_kw = None,
              allow_redirects_kw = None \<rparr> (self, w) of
       (Inl e, st) \<Rightarrow> (Inl e, st)
     | (Inr response, st) \<Rightarrow> (Inr (status_code response), st))"

text \<open>\<^verbatim>\<open>Vimeo.remove_tag_from_video\<close>\<close>

definition remove_tag_from_video ::
  "env \<Rightarrow> string \<Rightarrow> string \<Rightarrow> state \<Rightarrow> (exn + int) \<times> state" where
  "remove_tag_from_video env video_uri tag = (\<lambda>(self, w).
     let video_id = pop (str_split CHR ''/'' video_uri) in
     case send env
            \<lparr> verb = DELETE,
              url = api @ ''/videos/'' @ video_id @ ''/tags/'' @ tag,
              headers_kw = Some (REQUEST_HEADERS self),
              json_kw = None,
              allow_redirects_kw = None \<rparr> (self, w) of
       (Inl e, st) \<Rightarrow> (Inl e, st)
     | (Inr response, st) \<Rightarrow> (Inr (status_code response), st))"

text \<open>\<^verbatim>\<open>Vimeo.domain_whitelist_video\<close>\<close>

definition domain_whitelist_video ::
  "env \<Rightarrow> string \<Rightarrow> string \<Rightarrow> state \<Rightarrow> (exn + int) \<times> state" where
  "domain_whitelist_video env video_uri domain = (\<lambda>(self, w).
     let video_id = pop (str_split CHR ''/'' video_uri) in
     case send env
            \<lparr> verb = PUT,
              url = api @ ''/videos/'' @ video_id @ ''/privacy/domains/'' @ domain,
              headers_kw = Some (REQUEST_HEADERS self),
              json_kw = None,
              allow_redirects_kw = None \<rparr> (self, w) of
       (Inl e, st) \<Rightarrow> (Inl e, st)
     | (Inr response, st) \<Rightarrow> (Inr (status_code response), st))"




text \<open>\<^verbatim>\<open>d.keys()\<close>: the keys of a dictionary, in order.\<close>

definition keys :: "json \<Rightarrow> string list" where
  "keys j = (case j of JDict kvs \<Rightarrow> map fst kvs | _ \<Rightarrow> [])"


section \<open>Concrete clients, worlds and outside behaviours\<close>

text \<open>
  The inputs at which the theorems below are instantiated: a client with all credentials,
  an empty world, and outside behaviours given by what each library call answers.
\<close>

definition self0 :: Vimeo where
  "self0 = init (Some ''token'') (Some ''id'') (Some ''secret'') (Some 7)"

definition world0 :: world where
  "world0 = \<lparr> files = {}, calls = [] \<rparr>"

text \<open>Every request is answered 200 with the URI of a video; uploads and downloads succeed.\<close>

definition env_ok :: env where
  "env_ok =
     \<lparr> remote = (\<lambda>history req.
         Inr \<lparr> status_code = 200, headers = [],
               body_json = Some (JDict [(''uri'', JStr ''/videos/42'')]) \<rparr>),
       sdk_upload = (\<lambda>history client file_path data. Inr (Some ''/videos/42'')),
       sdk_upload_picture = (\<lambda>history client video_uri file_path activate.
         Inr (JDict [(''uri'', JStr (video_uri @ ''/pictures/1'')), (''active'', JBool activate)])),
       urlretrieve = (\<lambda>history url filename. Inr filename) \<rparr>"

text \<open>Every request is answered 404 and the SDK raises on both uploads; downloads succeed.\<close>

definition env_failing :: env where
  "env_failing =
     \<lparr> remote = (\<lambda>history req.
         Inr \<lparr> status_code = 404, headers = [],
               body_json = Some (JDict [(''error'', JStr ''not found'')]) \<rparr>),
       sdk_upload = (\<lambda>history client file_path data. Inl ''VideoUploadFailure''),
       sdk_upload_picture = (\<lambda>history client video_uri file_path activate.
         Inl ''PictureUploadFailure''),
       urlretrieve = (\<lambda>history url filename. Inr filename) \<rparr>"

text \<open>Every request is answered 204 without a body.\<close>

definition env_no_content :: env where
  "env_no_content =
     \<lparr> remote = (\<lambda>history req.
         Inr \<lparr> status_code = 204, headers = [], body_json = None \<rparr>),
       sdk_upload = (\<lambda>history client file_path data. Inr (Some ''/videos/42'')),
       sdk_upload_picture = (\<lambda>history client video_uri file_path activate. Inr (JDict [])),
       urlretrieve = (\<lambda>history url filename. Inr filename) \<rparr>"

text \<open>A HEAD request is answered without a \<open>Content-Length\<close> header, any other request 201.\<close>

definition env_no_length :: env where
  "env_no_length =
     \<lparr> remote = (\<lambda>history req.
         if verb req = HEAD
         then Inr \<lparr> status_code = 200, headers = [(''Content-Type'', ''video/mp4'')],
                    body_json = None \<rparr>
         else Inr \<lparr> status_code = 201, headers = [],
                    body_json = Some (JDict [(''uri'', JStr ''/videos/42'')]) \<rparr>),
       sdk_upload = (\<lambda>history client file_path data. Inr (Some ''/videos/42'')),
       sdk_upload_picture = (\<lambda>history client video_uri file_path activate. Inr (JDict [])),
       urlretrieve = (\<lambda>history url filename. Inr filename) \<rparr>"






section \<open>Basic facts about the helpers\<close>

text \<open>\<^verbatim>\<open>split\<close> never returns the empty list, so \<^verbatim>\<open>pop\<close> always finds a last piece.\<close>

lemma str_split_not_Nil: "str_split sep s \<noteq> []"
  by (induction s) auto

text \<open>A request that is sent is recorded, whatever the answer.\<close>

lemma send_calls: "calls (snd (snd (send env req (self, w)))) = calls w @ [Requests req]"
  by (simp add: send_def requests_def lib_def split: sum.splits)

lemma send_result: "fst (send env req (self, w)) = lib (remote env (calls w) req)"
  by (simp add: send_def requests_def lib_def split: sum.splits)

text \<open>
  The one call \<^verbatim>\<open>upload_video\<close> issues once it has its SDK client, and the one request
  \<^verbatim>\<open>pull_video_from_url\<close> issues once the size is settled.
\<close>

lemma upload_video_calls:
  "get_or_set_py_vimeo_client self = (Inr client, self') \<Longrightarrow>
   calls (snd (snd (upload_video env file_path video_name video_description settings (self, w)))) =
     calls w @ [SdkUpload client file_path
       (if settings = [] then upload_video_data video_name video_description else JDict settings)]"
  by (simp add: upload_video_def Let_def lib_def split: sum.splits)

lemma pull_video_from_url_calls:
  "detect_file_size env download_url file_size w = (Inr file_size', w1) \<Longrightarrow>
   calls (snd (snd (pull_video_from_url env download_url video_name folder_uri file_size settings
     logo_link (self, w)))) =
     calls w1 @ [Requests \<lparr> verb = POST, url = ''https://api.vimeo.com/me/videos'',
       headers_kw = Some (REQUEST_HEADERS self),
       json_kw = Some (if settings = []
                       then pull_video_data download_url video_name folder_uri file_size' logo_link
                       else JDict settings),
       allow_redirects_kw = None \<rparr>]"
  by (simp add: pull_video_from_url_def Let_def api_def send_def requests_def lib_def
      split: sum.splits)

text \<open>The SDK client of the concrete client, and the detection of a known size.\<close>

lemma client_of_self0:
  "get_or_set_py_vimeo_client self0 =
     (Inr \<lparr> token = Some ''token'', key = Some ''id'', secret = Some ''secret'' \<rparr>,
      self0\<lparr>py_vimeo_client :=
        Some \<lparr> token = Some ''token'', key = Some ''id'', secret = Some ''secret'' \<rparr>\<rparr>)"
  by (simp add: get_or_set_py_vimeo_client_def self0_def init_def truthy_str_def Let_def)

lemma detect_known_size:
  "detect_file_size env download_url (Some 1024) w = (Inr (JInt 1024), w)"
  by (simp add: detect_file_size_def truthy_int_def)


section \<open>Validation of the content rating\<close>

text \<open>
  C4. A call of \<^verbatim>\<open>change_video_content_rating\<close> with a rating outside
  \<open>violence\<close>, \<open>drugs\<close>, \<open>language\<close>, \<open>nudity\<close>, \<open>advertisement\<close>, \<open>safe\<close>, \<open>unrated\<close>
  raises \<^verbatim>\<open>NotImplementedError\<close> and leaves the client and the world as they were: no
  request is recorded. With a rating of the set, that exception is not raised and
  exactly one request is issued, the PATCH of the video with the rating as body.
\<close>

theorem change_video_content_rating_validates:
  "(rating \<notin> {''violence'', ''drugs'', ''language'', ''nudity'', ''advertisement'', ''safe'',
                ''unrated''} \<longrightarrow>
      change_video_content_rating env video_uri rating (self, w) =
        (Inl NotImplementedError, (self, w))) \<and>
   (rating \<in> {''violence'', ''drugs'', ''language'', ''nudity'', ''advertisement'', ''safe'',
              ''unrated''} \<longrightarrow>
      fst (change_video_content_rating env video_uri rating (self, w)) \<noteq>
        Inl NotImplementedError \<and>
      calls (snd (snd (change_video_content_rating env video_uri rating (self, w)))) =
        calls w @
          [Requests \<lparr> verb = PATCH,
                      url = ''https://api.vimeo.com/videos/'' @ pop (str_split CHR ''/'' video_uri),
                      headers_kw = Some (REQUEST_HEADERS self),
                      json_kw = Some (JDict [(''content_rating'', JList [JStr rating])]),
                      allow_redirects_kw = None \<rparr>])"
proof -
  have ratings: "set content_ratings =
      {''violence'', ''drugs'', ''language'', ''nudity'', ''advertisement'', ''safe'', ''unrated''}"
    by (simp add: content_ratings_def)
  show ?thesis
    unfolding ratings [symmetric]
    by (simp add: change_video_content_rating_def Let_def api_def send_def requests_def
        lib_def json_of_def split: sum.splits option.splits)
qed

text \<open>The theorem at the ratings \<open>explicit\<close> (outside the set) and \<open>nudity\<close> (inside).\<close>

theorem change_video_content_rating_validates_witness:
  "change_video_content_rating env_ok ''/videos/42'' ''explicit'' (self0, world0) =
     (Inl NotImplementedError, (self0, world0)) \<and>
   fst (change_video_content_rating env_ok ''/videos/42'' ''nudity'' (self0, world0)) =
     Inr (JDict [(''uri'', JStr ''/videos/42'')]) \<and>
   calls (snd (snd (change_video_content_rating env_ok ''/videos/42'' ''nudity''
     (self0, world0)))) =
     [Requests \<lparr> verb = PATCH, url = ''https://api.vimeo.com/videos/42'',
                 headers_kw = Some (REQUEST_HEADERS self0),
                 json_kw = Some (JDict [(''content_rating'', JList [JStr ''nudity''])]),
                 allow_redirects_kw = None \<rparr>]"
  using change_video_content_rating_validates [of "''explicit''" env_ok "''/videos/42''" self0 world0]
    change_video_content_rating_validates [of "''nudity''" env_ok "''/videos/42''" self0 world0]
  by (simp add: env_ok_def world0_def pop_def json_of_def lib_def send_def requests_def
      change_video_content_rating_def content_ratings_def Let_def api_def)


section \<open>Tagging a video\<close>

text \<open>
  C8. \<^verbatim>\<open>tag_video("/videos/42", "demo")\<close> issues exactly one request, the PUT of
  \<^verbatim>\<open>https://api.vimeo.com/videos/42/tags/demo\<close> with the client's headers and no body,
  whatever the outside answers; when the outside answers with a response, the call
  returns the status code of that response.
\<close>

theorem tag_video_demo:
  "calls (snd (snd (tag_video env ''/videos/42'' ''demo'' (self, w)))) =
     calls w @
       [Requests \<lparr> verb = PUT, url = ''https://api.vimeo.com/videos/42/tags/demo'',
                   headers_kw = Some (REQUEST_HEADERS self), json_kw = None,
                   allow_redirects_kw = None \<rparr>] \<and>
   (\<forall>r. remote env (calls w)
          \<lparr> verb = PUT, url = ''https://api.vimeo.com/videos/42/tags/demo'',
            headers_kw = Some (REQUEST_HEADERS self), json_kw = None,
            allow_redirects_kw = None \<rparr> = Inr r \<longrightarrow>
        fst (tag_video env ''/videos/42'' ''demo'' (self, w)) = Inr (status_code r))"
  by (simp add: tag_video_def pop_def Let_def api_def send_def requests_def lib_def split: sum.splits)

text \<open>The theorem at an outside that answers 200.\<close>

theorem tag_video_demo_witness:
  "fst (tag_video env_ok ''/videos/42'' ''demo'' (self0, world0)) = Inr 200 \<and>
   calls (snd (snd (tag_video env_ok ''/videos/42'' ''demo'' (self0, world0)))) =
     [Requests \<lparr> verb = PUT, url = ''https://api.vimeo.com/videos/42/tags/demo'',
                 headers_kw = Some [(''Authorization'', ''bearer token''),
                   (''Content-Type'', ''application/json''),
                   (''Accept'', ''application/vnd.vimeo.*+json;version=3.4'')], json_kw = None,
                 allow_redirects_kw = None \<rparr>]"
  using tag_video_demo [of env_ok self0 world0]
  by (simp add: env_ok_def self0_def world0_def init_def fmt_str_def)


section \<open>The settings override\<close>

text \<open>
  C6. With a non-empty \<^verbatim>\<open>settings\<close> dictionary the body that is sent is that dictionary
  and nothing of the default template: \<^verbatim>\<open>upload_video\<close>, once the SDK client is there,
  issues exactly one SDK upload whose \<^verbatim>\<open>data\<close> is \<^verbatim>\<open>settings\<close>;
  \<^verbatim>\<open>pull_video_from_url\<close>, once the size is settled, issues exactly one POST whose JSON
  body is \<^verbatim>\<open>settings\<close>. (Without credentials, or when the HEAD request raises, the
  operation ends before a body is sent.)
\<close>

theorem settings_override_replaces_default:
  assumes "settings \<noteq> []"
  shows
    "(\<forall>client self'. get_or_set_py_vimeo_client self = (Inr client, self') \<longrightarrow>
        calls (snd (snd (upload_video env file_path video_name video_description settings
          (self, w)))) =
          calls w @ [SdkUpload client file_path (JDict settings)]) \<and>
     (\<forall>file_size' w1. detect_file_size env download_url file_size w = (Inr file_size', w1) \<longrightarrow>
        calls (snd (snd (pull_video_from_url env download_url name folder_uri file_size settings
          logo_link (self, w)))) =
          calls w1 @ [Requests \<lparr> verb = POST, url = ''https://api.vimeo.com/me/videos'',
            headers_kw = Some (REQUEST_HEADERS self), json_kw = Some (JDict settings),
            allow_redirects_kw = None \<rparr>])"
  using assms by (simp add: upload_video_calls pull_video_from_url_calls)

text \<open>
  The theorem at \<^verbatim>\<open>{"name": "x"}\<close>: the bodies are that dictionary, which has no
  \<open>privacy\<close> and no \<open>embed\<close> entry.
\<close>

theorem settings_override_replaces_default_witness:
  "calls (snd (snd (upload_video env_ok ''movie.mp4'' (Some ''Movie'') None [(''name'', JStr ''x'')]
      (self0, world0)))) =
     [SdkUpload \<lparr> token = Some ''token'', key = Some ''id'', secret = Some ''secret'' \<rparr>
        ''movie.mp4'' (JDict [(''name'', JStr ''x'')])] \<and>
   calls (snd (snd (pull_video_from_url env_ok ''https://example.com/movie.mp4'' ''Movie'' None
      (Some 1024) [(''name'', JStr ''x'')] [] (self0, world0)))) =
     [Requests \<lparr> verb = POST, url = ''https://api.vimeo.com/me/videos'',
        headers_kw = Some (REQUEST_HEADERS self0), json_kw = Some (JDict [(''name'', JStr ''x'')]),
        allow_redirects_kw = None \<rparr>] \<and>
   getitem (JDict [(''name'', JStr ''x'')]) ''privacy'' = Inl KeyError \<and>
   getitem (JDict [(''name'', JStr ''x'')]) ''embed'' = Inl KeyError"
  using settings_override_replaces_default [where settings = "[(''name'', JStr ''x'')]"
      and self = self0 and env = env_ok and file_path = "''movie.mp4''"
      and video_name = "Some ''Movie''" and video_description = None and w = world0
      and download_url = "''https://example.com/movie.mp4''" and file_size = "Some 1024"
      and name = "''Movie''" and folder_uri = None and logo_link = "[]"]
    client_of_self0 detect_known_size [of env_ok "''https://example.com/movie.mp4''" world0]
  by (simp add: world0_def)

text \<open>
  C10. The default of the parameter \<^verbatim>\<open>settings\<close> is the empty dictionary, so a call without
  an override is a call with \<open>[]\<close>, and an explicit empty dictionary is the same call. Then
  the body is the default template, not an empty body: the SDK upload of
  \<^verbatim>\<open>upload_video\<close> carries the template with \<open>privacy\<close>, \<open>content_rating\<close> and
  \<open>review_page\<close>, the POST of \<^verbatim>\<open>pull_video_from_url\<close> the template that has \<open>embed\<close> and
  \<open>folder_uri\<close> as well.
\<close>

theorem empty_settings_use_default:
  "(\<forall>client self'. get_or_set_py_vimeo_client self = (Inr client, self') \<longrightarrow>
      calls (snd (snd (upload_video env file_path video_name video_description [] (self, w)))) =
        calls w @ [SdkUpload client file_path (upload_video_data video_name video_description)]) \<and>
   (\<forall>file_size' w1. detect_file_size env download_url file_size w = (Inr file_size', w1) \<longrightarrow>
      calls (snd (snd (pull_video_from_url env download_url name folder_uri file_size []
        logo_link (self, w)))) =
        calls w1 @ [Requests \<lparr> verb = POST, url = ''https://api.vimeo.com/me/videos'',
          headers_kw = Some (REQUEST_HEADERS self),
          json_kw = Some (pull_video_data download_url name folder_uri file_size' logo_link),
          allow_redirects_kw = None \<rparr>]) \<and>
   keys (upload_video_data video_name video_description) =
     [''name'', ''description'', ''content_rating'', ''privacy'', ''review_page''] \<and>
   keys (pull_video_data download_url name folder_uri sz logo_link) =
     [''name'', ''description'', ''upload'', ''content_rating'', ''privacy'', ''review_page'',
      ''embed'', ''folder_uri'']"
  by (simp add: upload_video_calls pull_video_from_url_calls keys_def upload_video_data_def
      pull_video_data_def)

text \<open>The theorem at a named upload and at a pull of known size.\<close>

theorem empty_settings_use_default_witness:
  "calls (snd (snd (upload_video env_ok ''movie.mp4'' (Some ''Movie'') None [] (self0, world0)))) =
     [SdkUpload \<lparr> token = Some ''token'', key = Some ''id'', secret = Some ''secret'' \<rparr>
        ''movie.mp4''
        (JDict
          [(''name'', JStr ''Movie''),
           (''description'', JNull),
           (''content_rating'', JList [JStr ''safe'']),
           (''privacy'', JDict
              [(''download'', JBool False),
               (''embed'', JStr ''whitelist''),
               (''comments'', JStr ''nobody''),
               (''view'', JStr ''disable'')]),
           (''review_page'', JDict [(''active'', JBool False)])])] \<and>
   calls (snd (snd (pull_video_from_url env_ok ''https://example.com/movie.mp4'' ''Movie'' None
      (Some 1024) [] [] (self0, world0)))) =
     [Requests \<lparr> verb = POST, url = ''https://api.vimeo.com/me/videos'',
        headers_kw = Some (REQUEST_HEADERS self0),
        json_kw = Some (pull_video_data ''https://example.com/movie.mp4'' ''Movie'' None
          (JInt 1024) []),
        allow_redirects_kw = None \<rparr>]"
  using empty_settings_use_default [where self = self0 and env = env_ok
      and file_path = "''movie.mp4''" and video_name = "Some ''Movie''"
      and video_description = None and w = world0
      and download_url = "''https://example.com/movie.mp4''" and file_size = "Some 1024"
      and name = "''Movie''" and folder_uri = None and logo_link = "[]"]
    client_of_self0 detect_known_size [of env_ok "''https://example.com/movie.mp4''" world0]
  by (simp add: world0_def upload_video_data_def json_of_str_def)

section \<open>The size of a pulled video\<close>

text \<open>
  The size passed by the caller is tested for truth (\<^verbatim>\<open>if not file_size\<close>), so the size
  \<open>0\<close> counts as no size: a call with \<^verbatim>\<open>file_size=0\<close> issues the HEAD request although a
  size was supplied.
\<close>

theorem head_request_for_size_zero_counterexample:
  "calls (snd (snd (pull_video_from_url env_ok ''https://example.com/movie.mp4'' ''Movie'' None
      (Some 0) [] [] (self0, world0)))) =
     [Requests \<lparr> verb = HEAD, url = ''https://example.com/movie.mp4'', headers_kw = None,
                 json_kw = None, allow_redirects_kw = Some True \<rparr>,
      Requests \<lparr> verb = POST, url = ''https://api.vimeo.com/me/videos'',
                 headers_kw = Some (REQUEST_HEADERS self0),
                 json_kw = Some (pull_video_data ''https://example.com/movie.mp4'' ''Movie'' None
                   (JInt 0) []),
                 allow_redirects_kw = None \<rparr>]"
  by (simp add: pull_video_from_url_def detect_file_size_def truthy_int_def requests_def
      send_def lib_def env_ok_def world0_def api_def header_def Let_def)

text \<open>What the detection of the size does, for a size that tests false and for one that tests true.\<close>

lemma detect_file_size_falsy:
  "file_size = None \<or> file_size = Some 0 \<Longrightarrow>
   detect_file_size env download_url file_size w =
     (case remote env (calls w)
             \<lparr> verb = HEAD, url = download_url, headers_kw = None, json_kw = None,
               allow_redirects_kw = Some True \<rparr> of
        Inl name \<Rightarrow> Inl (External name)
      | Inr r \<Rightarrow> Inr (case header r ''Content-Length'' of Some v \<Rightarrow> JStr v | None \<Rightarrow> JInt 0),
      w\<lparr>calls := calls w @
        [Requests \<lparr> verb = HEAD, url = download_url, headers_kw = None, json_kw = None,
                    allow_redirects_kw = Some True \<rparr>]\<rparr>)"
  by (auto simp add: detect_file_size_def truthy_int_def requests_def lib_def split: sum.splits)

lemma detect_file_size_truthy:
  "n \<noteq> 0 \<Longrightarrow> detect_file_size env download_url (Some n) w = (Inr (JInt n), w)"
  by (simp add: detect_file_size_def truthy_int_def)

lemma pull_video_from_url_raised_calls:
  "detect_file_size env download_url file_size w = (Inl e, w1) \<Longrightarrow>
   calls (snd (snd (pull_video_from_url env download_url video_name folder_uri file_size settings
     logo_link (self, w)))) = calls w1"
  by (simp add: pull_video_from_url_def)

text \<open>
  C3, amended. \<^verbatim>\<open>pull_video_from_url\<close> issues the HEAD request, before anything else, if
  and only if \<^verbatim>\<open>file_size\<close> is \<^verbatim>\<open>None\<close> or \<open>0\<close>. With a size other than \<open>0\<close> no HEAD
  request is issued: the only request is the POST, whose default body carries that size.
  When the HEAD request is answered without a \<open>Content-Length\<close> header and no settings
  override is given, the POST follows with the size \<open>0\<close> in its body.
\<close>

theorem head_request_iff_size_falsy:
  "(file_size = None \<or> file_size = Some 0 \<longrightarrow>
      (\<exists>rest. calls (snd (snd (pull_video_from_url env download_url name folder_uri file_size
          settings logo_link (self, w)))) =
        calls w @
          Requests \<lparr> verb = HEAD, url = download_url, headers_kw = None, json_kw = None,
                     allow_redirects_kw = Some True \<rparr> # rest)) \<and>
   (\<forall>n. file_size = Some n \<and> n \<noteq> 0 \<longrightarrow>
      calls (snd (snd (pull_video_from_url env download_url name folder_uri file_size
          settings logo_link (self, w)))) =
        calls w @
          [Requests \<lparr> verb = POST, url = ''https://api.vimeo.com/me/videos'',
             headers_kw = Some (REQUEST_HEADERS self),
             json_kw = Some (if settings = []
                             then pull_video_data download_url name folder_uri (JInt n) logo_link
                             else JDict settings),
             allow_redirects_kw = None \<rparr>]) \<and>
   (\<forall>r. (file_size = None \<or> file_size = Some 0) \<and>
        remote env (calls w)
          \<lparr> verb = HEAD, url = download_url, headers_kw = None, json_kw = None,
            allow_redirects_kw = Some True \<rparr> = Inr r \<and>
        header r ''Content-Length'' = None \<and> settings = [] \<longrightarrow>
      calls (snd (snd (pull_video_from_url env download_url name folder_uri file_size
          settings logo_link (self, w)))) =
        calls w @
          [Requests \<lparr> verb = HEAD, url = download_url, headers_kw = None, json_kw = None,
                      allow_redirects_kw = Some True \<rparr>,
           Requests \<lparr> verb = POST, url = ''https://api.vimeo.com/me/videos'',
             headers_kw = Some (REQUEST_HEADERS self),
             json_kw = Some (pull_video_data download_url name folder_uri (JInt 0) logo_link),
             allow_redirects_kw = None \<rparr>])"
proof (intro conjI allI impI)
  assume falsy: "file_size = None \<or> file_size = Some 0"
  let ?head = "\<lparr> verb = HEAD, url = download_url, headers_kw = None, json_kw = None,
                  allow_redirects_kw = Some True \<rparr>"
  show "\<exists>rest. calls (snd (snd (pull_video_from_url env download_url name folder_uri file_size
          settings logo_link (self, w)))) = calls w @ Requests ?head # rest"
  proof (cases "remote env (calls w) ?head")
    case (Inl e)
    with falsy have "detect_file_size env download_url file_size w =
        (Inl (External e), w\<lparr>calls := calls w @ [Requests ?head]\<rparr>)"
      by (simp add: detect_file_size_falsy)
    then show ?thesis
      by (simp add: pull_video_from_url_raised_calls)
  next
    case (Inr r)
    with falsy have "detect_file_size env download_url file_size w =
        (Inr (case header r ''Content-Length'' of Some v \<Rightarrow> JStr v | None \<Rightarrow> JInt 0),
         w\<lparr>calls := calls w @ [Requests ?head]\<rparr>)"
      by (simp add: detect_file_size_falsy)
    then show ?thesis
      by (simp add: pull_video_from_url_calls)
  qed
next
  fix n
  assume "file_size = Some n \<and> n \<noteq> 0"
  then show "calls (snd (snd (pull_video_from_url env download_url name folder_uri file_size
          settings logo_link (self, w)))) =
        calls w @
          [Requests \<lparr> verb = POST, url = ''https://api.vimeo.com/me/videos'',
             headers_kw = Some (REQUEST_HEADERS self),
             json_kw = Some (if settings = []
                             then pull_video_data download_url name folder_uri (JInt n) logo_link
                             else JDict settings),
             allow_redirects_kw = None \<rparr>]"
    using pull_video_from_url_calls [OF detect_file_size_truthy] by simp
next
  fix r
  let ?head = "\<lparr> verb = HEAD, url = download_url, headers_kw = None, json_kw = None,
                  allow_redirects_kw = Some True \<rparr>"
  assume h: "(file_size = None \<or> file_size = Some 0) \<and> remote env (calls w) ?head = Inr r \<and>
        header r ''Content-Length'' = None \<and> settings = []"
  then have "detect_file_size env download_url file_size w =
        (Inr (JInt 0), w\<lparr>calls := calls w @ [Requests ?head]\<rparr>)"
    by (simp add: detect_file_size_falsy)
  from pull_video_from_url_calls [OF this] h
  show "calls (snd (snd (pull_video_from_url env download_url name folder_uri file_size
          settings logo_link (self, w)))) =
        calls w @
          [Requests ?head,
           Requests \<lparr> verb = POST, url = ''https://api.vimeo.com/me/videos'',
             headers_kw = Some (REQUEST_HEADERS self),
             json_kw = Some (pull_video_data download_url name folder_uri (JInt 0) logo_link),
             allow_redirects_kw = None \<rparr>]"
    by simp
qed


text \<open>
  The theorem at an outside whose answer to HEAD has no \<open>Content-Length\<close>, without a size
  and with the size 1024.
\<close>

theorem head_request_iff_size_falsy_witness:
  "calls (snd (snd (pull_video_from_url env_no_length ''https://example.com/movie.mp4'' ''Movie''
      None None [] [] (self0, world0)))) =
     [Requests \<lparr> verb = HEAD, url = ''https://example.com/movie.mp4'', headers_kw = None,
                 json_kw = None, allow_redirects_kw = Some True \<rparr>,
      Requests \<lparr> verb = POST, url = ''https://api.vimeo.com/me/videos'',
                 headers_kw = Some (REQUEST_HEADERS self0),
                 json_kw = Some (pull_video_data ''https://example.com/movie.mp4'' ''Movie'' None
                   (JInt 0) []),
                 allow_redirects_kw = None \<rparr>] \<and>
   calls (snd (snd (pull_video_from_url env_no_length ''https://example.com/movie.mp4'' ''Movie''
      None (Some 1024) [] [] (self0, world0)))) =
     [Requests \<lparr> verb = POST, url = ''https://api.vimeo.com/me/videos'',
                 headers_kw = Some (REQUEST_HEADERS self0),
                 json_kw = Some (pull_video_data ''https://example.com/movie.mp4'' ''Movie'' None
                   (JInt 1024) []),
                 allow_redirects_kw = None \<rparr>] \<and>
   and_then (getitem (pull_video_data ''https://example.com/movie.mp4'' ''Movie'' None (JInt 0) [])
      ''upload'') (\<lambda>upload. getitem upload ''size'') = Inr (JInt 0)"
  using head_request_iff_size_falsy [where file_size = None and env = env_no_length
      and download_url = "''https://example.com/movie.mp4''" and name = "''Movie''"
      and folder_uri = None and settings = "[]" and logo_link = "[]" and self = self0
      and w = world0]
    head_request_iff_size_falsy [where file_size = "Some 1024" and env = env_no_length
      and download_url = "''https://example.com/movie.mp4''" and name = "''Movie''"
      and folder_uri = None and settings = "[]" and logo_link = "[]" and self = self0
      and w = world0]
  by (simp add: env_no_length_def world0_def header_def lower_char_def pull_video_data_def
      and_then_def)

section \<open>The folder operations\<close>

text \<open>
  What the three operations return once the outside has answered: \<^verbatim>\<open>delete_folder\<close> and
  \<^verbatim>\<open>remove_video_from_folder\<close> return the folder URI they were given, whatever the
  response. \<^verbatim>\<open>update_folder_name\<close> first executes \<^verbatim>\<open>response = response.json()\<close>, whose
  value it never reads: it returns the URI when the body is a JSON text and raises the
  decoding error otherwise.
\<close>

lemma folder_operations_return_folder_uri:
  "(\<forall>r. remote env (calls w)
          \<lparr> verb = PATCH, url = ''https://api.vimeo.com'' @ folder_uri,
            headers_kw = Some (REQUEST_HEADERS self),
            json_kw = Some (JDict [(''name'', JStr new_folder_name)]),
            allow_redirects_kw = None \<rparr> = Inr r \<longrightarrow>
        fst (update_folder_name env folder_uri new_folder_name (self, w)) =
          (if body_json r = None then Inl (External ''JSONDecodeError'') else Inr folder_uri)) \<and>
   (\<forall>r. remote env (calls w)
          \<lparr> verb = DELETE, url = ''https://api.vimeo.com'' @ folder_uri,
            headers_kw = Some (REQUEST_HEADERS self),
            json_kw = Some (JDict [(''should_delete_clips'', JBool delete_all_videos_in_folder)]),
            allow_redirects_kw = None \<rparr> = Inr r \<longrightarrow>
        fst (delete_folder env folder_uri delete_all_videos_in_folder (self, w)) =
          Inr folder_uri) \<and>
   (\<forall>r. remote env (calls w)
          \<lparr> verb = DELETE,
            url = ''https://api.vimeo.com'' @ folder_uri @ ''/videos/'' @
              pop (str_split CHR ''/'' video_uri),
            headers_kw = Some (REQUEST_HEADERS self), json_kw = None,
            allow_redirects_kw = None \<rparr> = Inr r \<longrightarrow>
        fst (remove_video_from_folder env folder_uri video_uri (self, w)) = Inr folder_uri)"
  by (simp add: update_folder_name_def delete_folder_def remove_video_from_folder_def send_def
      requests_def lib_def json_of_def and_then_def Let_def api_def split: option.splits)

text \<open>
  C7. The claim asks that each of the three operations return the folder URI it was
  given, whatever the body of the response. At a response without a JSON body (a 204
  with no content) \<^verbatim>\<open>delete_folder\<close> and \<^verbatim>\<open>remove_video_from_folder\<close> do, and
  \<^verbatim>\<open>update_folder_name\<close> raises \<^verbatim>\<open>JSONDecodeError\<close> and returns nothing; at a response with
  a JSON body it returns the URI.
\<close>

theorem update_folder_name_raises_without_json:
  "fst (update_folder_name env_no_content ''/users/7/projects/9'' ''Renamed'' (self0, world0)) =
     Inl (External ''JSONDecodeError'') \<and>
   fst (delete_folder env_no_content ''/users/7/projects/9'' False (self0, world0)) =
     Inr ''/users/7/projects/9'' \<and>
   fst (remove_video_from_folder env_no_content ''/users/7/projects/9'' ''/videos/42''
      (self0, world0)) = Inr ''/users/7/projects/9'' \<and>
   fst (update_folder_name env_ok ''/users/7/projects/9'' ''Renamed'' (self0, world0)) =
     Inr ''/users/7/projects/9''"
  by (simp add: update_folder_name_def delete_folder_def remove_video_from_folder_def send_def
      requests_def lib_def env_no_content_def env_ok_def json_of_def and_then_def Let_def)


section \<open>The status recorded by an upload\<close>

text \<open>
  \<^verbatim>\<open>upload_video\<close> writes the status only after the SDK call has returned. A client that
  has recorded a 404 (here from \<^verbatim>\<open>get_video\<close>) and whose upload then raises keeps the 404:
  the field is neither 200 nor unset.
\<close>

theorem upload_video_keeps_status_counterexample:
  "response_code (fst (snd (get_video env_failing ''/videos/1'' (self0, world0)))) = Some 404 \<and>
   fst (upload_video env_failing ''movie.mp4'' None None []
          (snd (get_video env_failing ''/videos/1'' (self0, world0)))) =
     Inl (External ''VideoUploadFailure'') \<and>
   response_code (fst (snd (upload_video env_failing ''movie.mp4'' None None []
          (snd (get_video env_failing ''/videos/1'' (self0, world0)))))) = Some 404"
  by (simp add: get_video_def upload_video_def send_def requests_def lib_def env_failing_def
      set_response_code_def truthy_int_def get_or_set_py_vimeo_client_def truthy_str_def
      self0_def init_def Let_def)

text \<open>
  C9, amended. After a call of \<^verbatim>\<open>upload_video\<close> that returns, the status field is 200 when
  the returned URI is a non-empty string and unset otherwise. After a call that raises
  (no credentials, or the SDK upload raises) the field is what it was before the call.
  No other value is ever written.
\<close>

theorem upload_video_response_code:
  "(\<forall>video_uri st'.
      upload_video env file_path video_name video_description settings (self, w) =
        (Inr video_uri, st') \<longrightarrow>
      response_code (fst st') =
        (if video_uri \<noteq> None \<and> video_uri \<noteq> Some [] then Some 200 else None)) \<and>
   (\<forall>e st'.
      upload_video env file_path video_name video_description settings (self, w) =
        (Inl e, st') \<longrightarrow>
      response_code (fst st') = response_code self)"
  by (auto simp add: upload_video_def get_or_set_py_vimeo_client_def set_response_code_def
      truthy_int_def truthy_str_def lib_def Let_def split: if_splits option.splits sum.splits)

text \<open>
  The theorem at an upload that returns a URI and at one that raises, both from a
  client whose field holds 404.
\<close>

theorem upload_video_response_code_witness:
  "response_code (fst (snd (upload_video env_ok ''movie.mp4'' None None []
      (self0\<lparr>response_code := Some 404\<rparr>, world0)))) = Some 200 \<and>
   response_code (fst (snd (upload_video env_failing ''movie.mp4'' None None []
      (self0\<lparr>response_code := Some 404\<rparr>, world0)))) = Some 404"
  using upload_video_response_code [where env = env_ok and file_path = "''movie.mp4''"
      and video_name = None and video_description = None and settings = "[]"
      and self = "self0\<lparr>response_code := Some 404\<rparr>" and w = world0]
    upload_video_response_code [where env = env_failing and file_path = "''movie.mp4''"
      and video_name = None and video_description = None and settings = "[]"
      and self = "self0\<lparr>response_code := Some 404\<rparr>" and w = world0]
  by (simp add: upload_video_def env_ok_def env_failing_def lib_def Let_def
      get_or_set_py_vimeo_client_def truthy_str_def self0_def init_def)

section \<open>The hash of a video\<close>










section \<open>The picture upload\<close>

text \<open>
  What \<^verbatim>\<open>upload_picture\<close> does when every step succeeds and the download wrote the file
  under the (non-empty) name it was asked to: the file is gone when the call returns.
\<close>

lemma upload_picture_removes_download:
  assumes "startswith file_path ''http''" and "basename file_path \<noteq> []"
    and "urlretrieve env (calls w) file_path (basename file_path) = Inr (basename file_path)"
    and "fst (upload_picture env video_uri file_path (self, w)) = Inr upload_response"
  shows "basename file_path \<notin> files (snd (snd (upload_picture env video_uri file_path (self, w))))"
  using assms
  by (auto simp add: upload_picture_def lib_def Let_def
      split: prod.splits sum.splits option.splits if_splits)

text \<open>
  C1. The claim asks that the downloaded file be deleted on every path. The code deletes
  it only after \<^verbatim>\<open>client.upload_picture\<close> has returned; there is no \<^verbatim>\<open>try\<close> around the
  upload. At the URL \<^verbatim>\<open>http://example.com/cover.png\<close>, with a download that succeeds and
  an SDK upload that raises, the call raises and the file \<^verbatim>\<open>cover.png\<close> is still there.
\<close>

theorem upload_picture_leaves_download_on_failure:
  "fst (upload_picture env_failing ''/videos/42'' ''http://example.com/cover.png''
      (self0, world0)) = Inl (External ''PictureUploadFailure'') \<and>
   files (snd (snd (upload_picture env_failing ''/videos/42'' ''http://example.com/cover.png''
      (self0, world0)))) = {''cover.png''} \<and>
   fst (upload_picture env_ok ''/videos/42'' ''http://example.com/cover.png''
      (self0, world0)) =
     Inr (JDict [(''uri'', JStr ''/videos/42/pictures/1''), (''active'', JBool True)]) \<and>
   files (snd (snd (upload_picture env_ok ''/videos/42'' ''http://example.com/cover.png''
      (self0, world0)))) = {}"
  by (simp add: upload_picture_def startswith_def basename_def lib_def env_failing_def env_ok_def
      world0_def client_of_self0 Let_def)

text \<open>\<^verbatim>\<open>upload_picture\<close> never writes the status field.\<close>

lemma upload_picture_response_code:
  "response_code (fst (snd (upload_picture env video_uri file_path (self, w)))) =
     response_code self"
  by (auto simp add: upload_picture_def get_or_set_py_vimeo_client_def lib_def Let_def
      split: prod.splits sum.splits option.splits if_splits)

text \<open>Every operation that sends a request through \<^verbatim>\<open>requests\<close> writes it once answered.\<close>

lemma send_response_code:
  "send env req (self, w) = (Inr r, (self', w')) \<Longrightarrow>
   response_code self' = (if status_code r = 0 then None else Some (status_code r))"
  by (auto simp add: send_def requests_def set_response_code_def truthy_int_def
      split: sum.splits)

text \<open>
  C2. The claim asks that every public operation, \<^verbatim>\<open>upload_picture\<close> included, write the
  status field before it returns. \<^verbatim>\<open>upload_picture\<close> has no call of
  \<^verbatim>\<open>_set_response_code\<close>: after a \<^verbatim>\<open>get_video\<close> answered with 404, a picture upload that
  succeeds returns its result and the field still reads 404.
\<close>

theorem upload_picture_keeps_old_status:
  "response_code (fst (snd (get_video env_failing ''/videos/1'' (self0, world0)))) = Some 404 \<and>
   fst (upload_picture env_ok ''/videos/42'' ''cover.png''
          (snd (get_video env_failing ''/videos/1'' (self0, world0)))) =
     Inr (JDict [(''uri'', JStr ''/videos/42/pictures/1''), (''active'', JBool True)]) \<and>
   response_code (fst (snd (upload_picture env_ok ''/videos/42'' ''cover.png''
          (snd (get_video env_failing ''/videos/1'' (self0, world0)))))) = Some 404"
  by (simp add: get_video_def upload_picture_def send_def requests_def lib_def env_failing_def
      env_ok_def set_response_code_def truthy_int_def get_or_set_py_vimeo_client_def
      truthy_str_def startswith_def self0_def init_def Let_def)

end
